theory Spec2Isabelle
  imports Main "HOL-Library.Sublist" "HOL-Library.AList"
begin

section \<open>The credentials manager: data model\<close>

text \<open>
  The source is one Python class, \<open>CredentialsManager\<close>, a process-wide singleton that keeps
  a dictionary of API keys, loads it from a JSON file, lets environment variables override
  entries and writes the dictionary back on every \<open>set_key\<close>.

  Key names and key values are strings (the spec's data model: a flat mapping from string to
  string), held as their UTF-8 bytes: a character of ASCII is one byte below 128, every other
  character is a sequence of bytes from 128 up. A Python \<open>dict\<close> is an association list in insertion order:
  \<open>d.get(k)\<close> is \<open>map_of d k\<close>, \<open>d[k] = v\<close> is \<open>AList.update k v d\<close> (the
  entry keeps its position, a new key is appended), \<open>d.keys()\<close> is \<open>map fst d\<close>.

  The \<open>json\<close> and \<open>os\<close> modules are library code. A file is modelled by what
  \<open>json.load\<close> makes of its text: the dictionary it parses to, or the message of the
  decoding error it raises. \<open>json.dump\<close> of a dictionary of strings writes a text that
  \<open>json.load\<close> parses back to that dictionary.
\<close>

type_synonym keystore = "(string \<times> string) list"

datatype file_content =
    JsonObject keystore  \<comment> \<open>a text that \<open>json.load\<close> parses to this dictionary\<close>
  | NotJson string       \<comment> \<open>a text that \<open>json.load\<close> rejects, with the error's message\<close>

datatype exc =
    NameError string        \<comment> \<open>the unbound name\<close>
  | AttributeError string   \<comment> \<open>the missing attribute\<close>
  | PermissionError string  \<comment> \<open>the path that could not be opened or created\<close>
  | JSONDecodeError string  \<comment> \<open>the decoder's message\<close>
  | RuntimeError string     \<comment> \<open>the message\<close>
  | ValueError string       \<comment> \<open>the message\<close>

text \<open>\<open>str(e)\<close>, as the f-strings of the source format an exception.\<close>

fun str_exc :: "exc \<Rightarrow> string" where
  "str_exc (NameError n) = ''name '' @ [CHR 0x27] @ n @ [CHR 0x27] @ '' is not defined''"
| "str_exc (AttributeError a) =
     [CHR 0x27] @ ''CredentialsManager'' @ [CHR 0x27] @ '' object has no attribute ''
       @ [CHR 0x27] @ a @ [CHR 0x27]"
| "str_exc (PermissionError p) = ''[Errno 13] Permission denied: '' @ [CHR 0x27] @ p @ [CHR 0x27]"
| "str_exc (JSONDecodeError m) = m"
| "str_exc (RuntimeError m) = m"
| "str_exc (ValueError m) = m"

text \<open>
  The world outside the process: the files by path, whether the operating system refuses to
  open a file for reading or for writing or to create the directory, the environment
  variables, what has been printed, the value of
  \<open>os.path.abspath(os.path.join(os.path.dirname(__file__), ".."))\<close>, and the interpreter's
  Unicode table: what \<open>str.upper\<close> makes of a run of characters outside ASCII (the letter e
  with an acute accent becomes its capital, the sharp s becomes SS).
\<close>

record world =
  files :: "string \<rightharpoonup> file_content"
  read_denied :: bool
  write_denied :: bool
  makedirs_denied :: bool
  environ :: "string \<rightharpoonup> string"
  stdout :: "string list"
  project_root :: string
  unicode_upper :: "string \<Rightarrow> string"

text \<open>
  An instance with the attributes it may have: \<open>_initialized\<close> is either absent or
  \<open>True\<close>, \<open>_config_path\<close> and \<open>_keys\<close> are absent until \<open>__init__\<close> assigns them.
  \<open>oid\<close> is the object's identity.
\<close>

record obj =
  oid :: nat
  initialized :: bool
  config_path :: "string option"
  keys :: "keystore option"

text \<open>The class: its attribute \<open>_instance\<close> and the number of objects created so far.\<close>

record proc =
  cls_instance :: "obj option"
  allocated :: nat

definition CONFIG_DIR :: string where
  "CONFIG_DIR = ''credentials''"

definition CONFIG_FILENAME :: string where
  "CONFIG_FILENAME = ''credentials.json''"

definition DEFAULT_CONFIG :: keystore where
  "DEFAULT_CONFIG = [(''EXAMPLE_API_NAME'', ''EXAMPLE_API_KEY'')]"

text \<open>
  The dictionaries bound at module level. The module binds \<open>os\<close>, \<open>json\<close> and the class
  \<open>CredentialsManager\<close>, none of them a dictionary; \<open>DEFAULT_CONFIG\<close> is an attribute of
  the class, which a bare name inside a method does not reach.
\<close>

definition module_globals :: "string \<rightharpoonup> keystore" where
  "module_globals = Map.empty"

definition load_global :: "string \<Rightarrow> exc + keystore" where
  "load_global n = (case module_globals n of None \<Rightarrow> Inl (NameError n) | Some d \<Rightarrow> Inr d)"

section \<open>Library functions the class calls\<close>

text \<open>\<open>os.path.join\<close> of two components (POSIX).\<close>

definition path_join :: "string \<Rightarrow> string \<Rightarrow> string" where
  "path_join a b =
     (if prefix ''/'' b then b
      else if a = [] \<or> suffix ''/'' a then a @ b
      else a @ ''/'' @ b)"

text \<open>
  \<open>str.upper\<close> maps every character on its own. Within ASCII the letters a to z become A
  to Z and nothing else changes; a run of characters outside ASCII is mapped by the Unicode
  table \<open>u\<close>. \<open>upper_runs\<close> walks the text with the run of bytes outside ASCII that is still
  open.
\<close>

definition is_ascii :: "char \<Rightarrow> bool" where
  "is_ascii c = ((of_char c :: nat) < 128)"

definition upper_char :: "char \<Rightarrow> char" where
  "upper_char c =
     (let n = (of_char c :: nat) in if 97 \<le> n \<and> n \<le> 122 then char_of (n - 32) else c)"

definition flush :: "(string \<Rightarrow> string) \<Rightarrow> string \<Rightarrow> string" where
  "flush u run = (if run = [] then [] else u run)"

fun upper_runs :: "(string \<Rightarrow> string) \<Rightarrow> string \<Rightarrow> string \<Rightarrow> string" where
  "upper_runs u run [] = flush u run"
| "upper_runs u run (c # cs) =
     (if is_ascii c then flush u run @ upper_char c # upper_runs u [] cs
      else upper_runs u (run @ [c]) cs)"

definition upper :: "(string \<Rightarrow> string) \<Rightarrow> string \<Rightarrow> string" where
  "upper u s = upper_runs u [] s"

text \<open>\<open>str.startswith\<close>.\<close>

definition startswith :: "string \<Rightarrow> string \<Rightarrow> bool" where
  "startswith s p = prefix p s"

text \<open>The message \<open>json.load\<close> gives for an empty file.\<close>

definition empty_file :: file_content where
  "empty_file = NotJson ''Expecting value: line 1 column 1 (char 0)''"

section \<open>The class\<close>

text \<open>\<open>__new__\<close>: creates the instance once; returns \<open>cls._instance\<close>.\<close>

definition new :: "proc \<Rightarrow> obj \<times> proc" where
  "new p =
     (case cls_instance p of
        None \<Rightarrow>
          (let self = \<lparr>oid = allocated p, initialized = False, config_path = None, keys = None\<rparr>
           in (self, p\<lparr>cls_instance := Some self, allocated := Suc (allocated p)\<rparr>))
      | Some self \<Rightarrow> (self, p))"

definition read_error_message :: "string \<Rightarrow> exc \<Rightarrow> string" where
  "read_error_message path e = ''Error reading configuration file '' @ path @ '': '' @ str_exc e"

text \<open>
  \<open>_load_config_file\<close>. Where the file does not exist, \<open>open(path, "w")\<close> creates it empty,
  then the argument \<open>DEFAULT_CONFIG\<close> of \<open>json.dump\<close> is looked up as a global name.
\<close>

definition load_config_file :: "obj \<Rightarrow> world \<Rightarrow> (exc + unit) \<times> obj \<times> world" where
  "load_config_file self w =
     (case config_path self of
        None \<Rightarrow> (Inl (AttributeError ''_config_path''), self, w)
      | Some path \<Rightarrow>
          (case files w path of
             None \<Rightarrow>
               (if write_denied w then (Inl (PermissionError path), self, w)
                else
                  (let w1 = w\<lparr>files := (files w)(path \<mapsto> empty_file)\<rparr> in
                   case load_global ''DEFAULT_CONFIG'' of
                     Inl e \<Rightarrow> (Inl e, self, w1)
                   | Inr d \<Rightarrow>
                       (Inr (),
                        self\<lparr>keys := Some d\<rparr>,
                        w1\<lparr>files := (files w1)(path \<mapsto> JsonObject d),
                            stdout := stdout w1 @
                              [''Created default '' @ CONFIG_DIR @ '' file at: '' @ path]\<rparr>)))
           | Some content \<Rightarrow>
               (if read_denied w
                then (Inl (RuntimeError (read_error_message path (PermissionError path))), self, w)
                else
                  (case content of
                     NotJson m \<Rightarrow>
                       (Inl (RuntimeError (read_error_message path (JSONDecodeError m))), self, w)
                   | JsonObject d \<Rightarrow> (Inr (), self\<lparr>keys := Some d\<rparr>, w)))))"

text \<open>\<open>_override_with_env\<close>: the loop over \<open>self._keys.keys()\<close>.\<close>

fun override_loop :: "world \<Rightarrow> string list \<Rightarrow> keystore \<Rightarrow> keystore" where
  "override_loop w [] ks = ks"
| "override_loop w (key # rest) ks =
     (case environ w (upper (unicode_upper w) key) of
        None \<Rightarrow> override_loop w rest ks
      | Some env_value \<Rightarrow>
          (if env_value \<noteq> [] then override_loop w rest (AList.update key env_value ks)
           else override_loop w rest ks))"

definition override_with_env :: "obj \<Rightarrow> world \<Rightarrow> (exc + unit) \<times> obj \<times> world" where
  "override_with_env self w =
     (case keys self of
        None \<Rightarrow> (Inl (AttributeError ''_keys''), self, w)
      | Some ks \<Rightarrow> (Inr (), self\<lparr>keys := Some (override_loop w (map fst ks) ks)\<rparr>, w))"

text \<open>\<open>__init__\<close>.\<close>

definition init :: "obj \<Rightarrow> world \<Rightarrow> (exc + unit) \<times> obj \<times> world" where
  "init self w =
     (if initialized self then (Inr (), self, w)
      else
        (let self1 = self\<lparr>initialized := True\<rparr>;
             config_dir_path = path_join (project_root w) CONFIG_DIR
         in if makedirs_denied w then (Inl (PermissionError config_dir_path), self1, w)
            else
              (let self2 = self1\<lparr>config_path := Some (path_join config_dir_path CONFIG_FILENAME),
                                 keys := Some []\<rparr>
               in case load_config_file self2 w of
                    (Inl e, self3, w3) \<Rightarrow> (Inl e, self3, w3)
                  | (Inr u, self3, w3) \<Rightarrow> override_with_env self3 w3)))"

text \<open>
  The call \<open>CredentialsManager()\<close>: \<open>__new__\<close>, then \<open>__init__\<close> on the object it returned,
  which is the one \<open>cls._instance\<close> refers to. The call returns that object (its identity
  here) unless \<open>__init__\<close> raised.
\<close>

definition construct :: "proc \<Rightarrow> world \<Rightarrow> (exc + nat) \<times> proc \<times> world" where
  "construct p w =
     (let (self, p1) = new p in
      case init self w of
        (Inl e, self', w') \<Rightarrow> (Inl e, p1\<lparr>cls_instance := Some self'\<rparr>, w')
      | (Inr u, self', w') \<Rightarrow> (Inr (oid self'), p1\<lparr>cls_instance := Some self'\<rparr>, w'))"

definition key_error_message :: "string \<Rightarrow> string \<Rightarrow> string" where
  "key_error_message key_name path =
     ''API key for '' @ [CHR 0x27] @ key_name @ [CHR 0x27] @ '' is not set. Please update ''
       @ path @ '' with your actual API key.''"

text \<open>\<open>get_key\<close>. \<open>dict.get\<close> gives \<open>None\<close> for a missing key.\<close>

definition get_key :: "obj \<Rightarrow> string \<Rightarrow> world \<Rightarrow> (exc + string) \<times> obj \<times> world" where
  "get_key self key_name w =
     (case keys self of
        None \<Rightarrow> (Inl (AttributeError ''_keys''), self, w)
      | Some ks \<Rightarrow>
          (case map_of ks key_name of
             None \<Rightarrow>
               (case config_path self of
                  None \<Rightarrow> (Inl (AttributeError ''_config_path''), self, w)
                | Some path \<Rightarrow> (Inl (ValueError (key_error_message key_name path)), self, w))
           | Some key \<Rightarrow>
               (if startswith key ''Your''
                then (case config_path self of
                        None \<Rightarrow> (Inl (AttributeError ''_config_path''), self, w)
                      | Some path \<Rightarrow> (Inl (ValueError (key_error_message key_name path)), self, w))
                else (Inr key, self, w))))"

text \<open>
  \<open>_save_config\<close>: everything is inside the \<open>try\<close>, so every failure ends in the
  \<open>print\<close>. \<open>open(path, "w")\<close> truncates the file before \<open>self._keys\<close> is read.
\<close>

definition save_error_line :: "exc \<Rightarrow> string" where
  "save_error_line e = ''Error saving configuration file: '' @ str_exc e"

definition save_config :: "obj \<Rightarrow> world \<Rightarrow> obj \<times> world" where
  "save_config self w =
     (case config_path self of
        None \<Rightarrow> (self, w\<lparr>stdout := stdout w @ [save_error_line (AttributeError ''_config_path'')]\<rparr>)
      | Some path \<Rightarrow>
          (if write_denied w
           then (self, w\<lparr>stdout := stdout w @ [save_error_line (PermissionError path)]\<rparr>)
           else
             (case keys self of
                None \<Rightarrow>
                  (self, w\<lparr>files := (files w)(path \<mapsto> empty_file),
                           stdout := stdout w @ [save_error_line (AttributeError ''_keys'')]\<rparr>)
              | Some ks \<Rightarrow> (self, w\<lparr>files := (files w)(path \<mapsto> JsonObject ks)\<rparr>))))"

text \<open>\<open>set_key\<close>.\<close>

definition set_key :: "obj \<Rightarrow> string \<Rightarrow> string \<Rightarrow> world \<Rightarrow> (exc + unit) \<times> obj \<times> world" where
  "set_key self key_name key_value w =
     (case keys self of
        None \<Rightarrow> (Inl (AttributeError ''_keys''), self, w)
      | Some ks \<Rightarrow>
          (let self1 = self\<lparr>keys := Some (AList.update key_name key_value ks)\<rparr>;
               (self2, w2) = save_config self1 w
           in (Inr (), self2, w2)))"

text \<open>What parsing the file at a path gives, for whoever reads the disk afterwards.\<close>

definition disk_mapping :: "world \<Rightarrow> string \<Rightarrow> keystore option" where
  "disk_mapping w path =
     (case files w path of
        None \<Rightarrow> None
      | Some (NotJson m) \<Rightarrow> None
      | Some (JsonObject d) \<Rightarrow> Some d)"

section \<open>Callers\<close>

text \<open>The class after the module is loaded: \<open>_instance = None\<close>.\<close>

definition fresh_proc :: proc where
  "fresh_proc = \<lparr>cls_instance = None, allocated = 0\<rparr>"

text \<open>The path \<open>__init__\<close> computes for the configuration file.\<close>

definition cfg_path :: "world \<Rightarrow> string" where
  "cfg_path w = path_join (path_join (project_root w) CONFIG_DIR) CONFIG_FILENAME"

text \<open>An instance on which \<open>__init__\<close> has assigned every attribute.\<close>

definition ready :: "nat \<Rightarrow> string \<Rightarrow> keystore \<Rightarrow> obj" where
  "ready i path ks = \<lparr>oid = i, initialized = True, config_path = Some path, keys = Some ks\<rparr>"

text \<open>
  A method called through any reference to the singleton acts on the object in
  \<open>cls._instance\<close>, and what it changes is seen through every other reference.
\<close>

definition instance_get_key :: "proc \<Rightarrow> string \<Rightarrow> world \<Rightarrow> (exc + string) \<times> proc \<times> world" where
  "instance_get_key p key_name w =
     (case cls_instance p of
        None \<Rightarrow> (Inl (AttributeError ''get_key''), p, w)
      | Some self \<Rightarrow>
          (case get_key self key_name w of
             (r, self', w') \<Rightarrow> (r, p\<lparr>cls_instance := Some self'\<rparr>, w')))"

definition instance_set_key ::
  "proc \<Rightarrow> string \<Rightarrow> string \<Rightarrow> world \<Rightarrow> (exc + unit) \<times> proc \<times> world" where
  "instance_set_key p key_name key_value w =
     (case cls_instance p of
        None \<Rightarrow> (Inl (AttributeError ''set_key''), p, w)
      | Some self \<Rightarrow>
          (case set_key self key_name key_value w of
             (r, self', w') \<Rightarrow> (r, p\<lparr>cls_instance := Some self'\<rparr>, w')))"

text \<open>
  A world in which nothing is refused and nothing has been printed. Its Unicode table leaves
  every run as it is, which is of no account while the key names are ASCII.
\<close>

definition plain_world ::
  "string \<Rightarrow> (string \<rightharpoonup> file_content) \<Rightarrow> (string \<rightharpoonup> string) \<Rightarrow> world" where
  "plain_world root fs env =
     \<lparr>files = fs, read_denied = False, write_denied = False, makedirs_denied = False,
      environ = env, stdout = [], project_root = root, unicode_upper = (\<lambda>run. run)\<rparr>"

section \<open>Reading a key\<close>

lemma startswith_Your: "startswith v ''Your'' \<longleftrightarrow> (\<exists>rest. v = ''Your'' @ rest)"
  by (auto simp: startswith_def prefix_def)

lemma get_key_ready:
  "get_key (ready i path ks) name w =
     (case map_of ks name of
        None \<Rightarrow> (Inl (ValueError (key_error_message name path)), ready i path ks, w)
      | Some v \<Rightarrow>
          if startswith v ''Your''
          then (Inl (ValueError (key_error_message name path)), ready i path ks, w)
          else (Inr v, ready i path ks, w))"
  by (simp add: get_key_def ready_def split: option.splits)

lemma sublist_key_error_message: "sublist path (key_error_message name path)"
  unfolding key_error_message_def sublist_def
  by (metis append.assoc)

lemma set_key_ready:
  "set_key (ready i path ks) name v w =
     (Inr (), ready i path (AList.update name v ks),
      if write_denied w
      then w\<lparr>stdout := stdout w @ [save_error_line (PermissionError path)]\<rparr>
      else w\<lparr>files := (files w)(path \<mapsto> JsonObject (AList.update name v ks))\<rparr>)"
  by (simp add: set_key_def save_config_def ready_def)

text \<open>
  C1. On a store whose attributes are set, \<open>get_key name\<close> returns \<open>v\<close> exactly when the
  key store binds \<open>name\<close> to \<open>v\<close> and \<open>v\<close> does not begin with \<open>Your\<close>; it raises the
  \<open>ValueError\<close> (the spec's \<open>KeyNotConfiguredError\<close>) exactly when the key is absent or its
  value begins with \<open>Your\<close>; it raises nothing else; the message contains the path of the
  configuration file; and a key that \<open>set_key\<close> has just bound to a value beginning with
  \<open>Your\<close> makes \<open>get_key\<close> raise, whatever the store and the world were.
\<close>

theorem get_key_contract:
  "(\<forall>v. fst (get_key (ready i path ks) name w) = Inr v \<longleftrightarrow>
         map_of ks name = Some v \<and> \<not> (\<exists>rest. v = ''Your'' @ rest))
   \<and> (fst (get_key (ready i path ks) name w) = Inl (ValueError (key_error_message name path)) \<longleftrightarrow>
         map_of ks name = None \<or> (\<exists>rest. map_of ks name = Some (''Your'' @ rest)))
   \<and> (\<forall>e. fst (get_key (ready i path ks) name w) = Inl e \<longrightarrow>
         e = ValueError (key_error_message name path))
   \<and> sublist path (key_error_message name path)
   \<and> (\<forall>rest w'.
         fst (get_key (fst (snd (set_key (ready i path ks) name (''Your'' @ rest) w))) name w')
           = Inl (ValueError (key_error_message name path)))"
proof (intro conjI allI)
  fix v
  show "fst (get_key (ready i path ks) name w) = Inr v \<longleftrightarrow>
        map_of ks name = Some v \<and> \<not> (\<exists>rest. v = ''Your'' @ rest)"
    by (auto simp: get_key_ready startswith_Your split: option.splits)
next
  show "fst (get_key (ready i path ks) name w) = Inl (ValueError (key_error_message name path)) \<longleftrightarrow>
        map_of ks name = None \<or> (\<exists>rest. map_of ks name = Some (''Your'' @ rest))"
    by (auto simp: get_key_ready startswith_Your split: option.splits)
next
  fix e
  show "fst (get_key (ready i path ks) name w) = Inl e \<longrightarrow>
        e = ValueError (key_error_message name path)"
    by (auto simp: get_key_ready split: option.splits)
next
  show "sublist path (key_error_message name path)"
    by (rule sublist_key_error_message)
next
  fix rest w'
  show "fst (get_key (fst (snd (set_key (ready i path ks) name (''Your'' @ rest) w))) name w')
          = Inl (ValueError (key_error_message name path))"
    by (simp add: set_key_ready get_key_ready update_conv startswith_def)
qed

theorem get_key_contract_witness:
  "fst (get_key (ready 0 ''/p/credentials/credentials.json'' [(''A'', ''abc''), (''X'', ''YourKeyHere'')])
          ''A'' (plain_world ''/p'' Map.empty Map.empty)) = Inr ''abc''
   \<and> fst (get_key (ready 0 ''/p/credentials/credentials.json'' [(''A'', ''abc''), (''X'', ''YourKeyHere'')])
          ''X'' (plain_world ''/p'' Map.empty Map.empty))
       = Inl (ValueError (key_error_message ''X'' ''/p/credentials/credentials.json''))
   \<and> fst (get_key (ready 0 ''/p/credentials/credentials.json'' [(''A'', ''abc''), (''X'', ''YourKeyHere'')])
          ''some_bad_example'' (plain_world ''/p'' Map.empty Map.empty))
       = Inl (ValueError (key_error_message ''some_bad_example'' ''/p/credentials/credentials.json''))"
proof -
  let ?ks = "[(''A'', ''abc''), (''X'', ''YourKeyHere'')]"
  let ?w = "plain_world ''/p'' Map.empty Map.empty"
  note c = get_key_contract [of 0 "''/p/credentials/credentials.json''" ?ks _ ?w]
  have a: "fst (get_key (ready 0 ''/p/credentials/credentials.json'' ?ks) ''A'' ?w) = Inr ''abc''"
    using c [of "''A''", THEN conjunct1, rule_format, of "''abc''"] by simp
  have x: "fst (get_key (ready 0 ''/p/credentials/credentials.json'' ?ks) ''X'' ?w)
       = Inl (ValueError (key_error_message ''X'' ''/p/credentials/credentials.json''))"
    using c [of "''X''", THEN conjunct2, THEN conjunct1] by simp
  have b: "fst (get_key (ready 0 ''/p/credentials/credentials.json'' ?ks) ''some_bad_example'' ?w)
       = Inl (ValueError (key_error_message ''some_bad_example'' ''/p/credentials/credentials.json''))"
    using c [of "''some_bad_example''", THEN conjunct2, THEN conjunct1] by simp
  from a x b show ?thesis by simp
qed

text \<open>
  C9. The placeholder test is a case-sensitive test of the first four characters: a key bound
  to a value that does not begin with exactly \<open>Your\<close> is returned. The values \<open>your_key\<close>
  and \<open>MyYourKey\<close> are such values.
\<close>

theorem get_key_non_placeholder:
  "(map_of ks name = Some v \<and> \<not> (\<exists>rest. v = ''Your'' @ rest)
      \<longrightarrow> fst (get_key (ready i path ks) name w) = Inr v)
   \<and> \<not> (\<exists>rest. ''your_key'' = ''Your'' @ rest)
   \<and> \<not> (\<exists>rest. ''MyYourKey'' = ''Your'' @ rest)"
  by (auto simp: get_key_ready startswith_Your)

theorem get_key_non_placeholder_witness:
  "fst (get_key (ready 0 ''/c.json'' [(''a'', ''your_key''), (''b'', ''MyYourKey'')]) ''a''
          (plain_world ''/p'' Map.empty Map.empty)) = Inr ''your_key''
   \<and> fst (get_key (ready 0 ''/c.json'' [(''a'', ''your_key''), (''b'', ''MyYourKey'')]) ''b''
          (plain_world ''/p'' Map.empty Map.empty)) = Inr ''MyYourKey''"
proof -
  let ?ks = "[(''a'', ''your_key''), (''b'', ''MyYourKey'')]"
  let ?w = "plain_world ''/p'' Map.empty Map.empty"
  have a: "fst (get_key (ready 0 ''/c.json'' ?ks) ''a'' ?w) = Inr ''your_key''"
    using get_key_non_placeholder [of ?ks "''a''" "''your_key''" 0 "''/c.json''" ?w, THEN conjunct1]
    by simp
  have b: "fst (get_key (ready 0 ''/c.json'' ?ks) ''b'' ?w) = Inr ''MyYourKey''"
    using get_key_non_placeholder [of ?ks "''b''" "''MyYourKey''" 0 "''/c.json''" ?w, THEN conjunct1]
    by simp
  from a b show ?thesis by simp
qed

text \<open>
  C10. \<open>get_key\<close> changes nothing: whatever the instance, the key name and the world, and
  whether it returns or raises, the instance (its key store with it) and the world (its files
  with it) are what they were, and a second call in the state the first one left gives the
  same outcome.
\<close>

theorem get_key_read_only:
  "snd (get_key self name w) = (self, w)
   \<and> get_key (fst (snd (get_key self name w))) name (snd (snd (get_key self name w)))
       = get_key self name w"
proof -
  have "snd (get_key self name w) = (self, w)"
    by (simp add: get_key_def split: option.splits)
  then show ?thesis by simp
qed

section \<open>Construction\<close>

lemma cfg_path_plain_world:
  "cfg_path (plain_world ''/p'' fs env) = ''/p/credentials/credentials.json''"
proof -
  have "path_join (path_join ''/p'' CONFIG_DIR) CONFIG_FILENAME = ''/p/credentials/credentials.json''"
    by code_simp
  then show ?thesis
    by (simp add: cfg_path_def plain_world_def)
qed

lemma upper_runs_ascii:
  "is_ascii c \<Longrightarrow>
   upper_runs u run (a @ c # b) = upper_runs u run a @ upper_char c # upper_runs u [] b"
  by (induction a arbitrary: run) simp_all

lemma upper_runs_outside:
  "\<forall>c\<in>set r. \<not> is_ascii c \<Longrightarrow> upper_runs u run (r @ s) = upper_runs u (run @ r) s"
  by (induction r arbitrary: run) simp_all

lemma upper_Nil: "upper u [] = []"
  by (simp add: upper_def flush_def)

lemma upper_ascii:
  "is_ascii c \<Longrightarrow> upper u (a @ c # b) = upper u a @ upper_char c # upper u b"
  by (simp add: upper_def upper_runs_ascii)

lemma upper_outside:
  assumes "r \<noteq> []" "\<forall>c\<in>set r. \<not> is_ascii c"
  shows "upper u r = u r"
  using upper_runs_outside [OF assms(2), of u "[]" "[]"] assms(1)
  by (simp add: upper_def flush_def)

lemma upper_foo: "upper u ''foo'' = ''FOO''"
proof -
  have a: "is_ascii CHR ''f''" "is_ascii CHR ''o''"
    by code_simp+
  have c: "upper_char CHR ''f'' = CHR ''F''" "upper_char CHR ''o'' = CHR ''O''"
    by code_simp+
  show ?thesis
    by (simp add: upper_def flush_def a c)
qed

lemma map_of_override_loop:
  "map_of (override_loop w ns ks) k =
     (if k \<in> set ns
      then (case environ w (upper (unicode_upper w) k) of
              None \<Rightarrow> map_of ks k
            | Some v \<Rightarrow> if v \<noteq> [] then Some v else map_of ks k)
      else map_of ks k)"
proof (induction ns arbitrary: ks k)
  case Nil
  then show ?case by simp
next
  case (Cons n ns)
  show ?case
    by (auto simp: Cons.IH update_conv split: option.splits)
qed

lemma construct_fresh_json:
  assumes "cls_instance p = None" "\<not> makedirs_denied w" "\<not> read_denied w"
    "files w (cfg_path w) = Some (JsonObject d)"
  shows "construct p w =
     (Inr (allocated p),
      p\<lparr>cls_instance :=
           Some (ready (allocated p) (cfg_path w) (override_loop w (map fst d) d)),
         allocated := Suc (allocated p)\<rparr>,
      w)"
  using assms
  by (simp add: construct_def new_def init_def load_config_file_def override_with_env_def
      cfg_path_def ready_def Let_def)

lemma instance_get_key_ready:
  "cls_instance p = Some (ready i path ks) \<Longrightarrow>
   instance_get_key p name w = (fst (get_key (ready i path ks) name w), p, w)"
  by (simp add: instance_get_key_def get_key_ready split: option.splits)

text \<open>
  C4. The first construction in a process, with a configuration file that parses to the
  dictionary \<open>d\<close>, succeeds, and for every key \<open>k\<close> of \<open>d\<close> the key store binds \<open>k\<close> to
  the value of the environment variable named by the upper-cased \<open>k\<close> if that variable is set
  and not empty, and to the file's value otherwise; \<open>get_key k\<close> then returns that value
  (unless it begins with \<open>Your\<close>). The upper-cased name is what \<open>str.upper\<close> gives: the
  empty name for the empty name; an ASCII character upper-cased on its own, a to z becoming A
  to Z and every other one kept, whatever stands before and after it; a run of characters
  outside ASCII as the Unicode table maps it.
\<close>

theorem env_override:
  assumes "cls_instance p = None" "\<not> makedirs_denied w" "\<not> read_denied w"
    "files w (cfg_path w) = Some (JsonObject d)"
    "map_of d k = Some file_value"
  shows "(\<exists>i ks v name.
           name = upper (unicode_upper w) k
           \<and> v = (case environ w name of
                  None \<Rightarrow> file_value
                | Some env_value \<Rightarrow> if env_value \<noteq> [] then env_value else file_value)
           \<and> fst (construct p w) = Inr i
           \<and> cls_instance (fst (snd (construct p w))) = Some (ready i (cfg_path w) ks)
           \<and> map_of ks k = Some v
           \<and> (\<not> (\<exists>rest. v = ''Your'' @ rest) \<longrightarrow>
                fst (instance_get_key (fst (snd (construct p w))) k (snd (snd (construct p w))))
                  = Inr v))
         \<and> upper u [] = []
         \<and> (\<forall>a c b. (of_char c :: nat) < 128 \<longrightarrow>
               upper u (a @ c # b) =
                 upper u a @
                 (if 97 \<le> (of_char c :: nat) \<and> (of_char c :: nat) \<le> 122
                  then char_of ((of_char c :: nat) - 32) else c) # upper u b)
         \<and> (\<forall>r. r \<noteq> [] \<and> (\<forall>c\<in>set r. 128 \<le> (of_char c :: nat)) \<longrightarrow> upper u r = u r)"
proof (intro conjI)
  let ?name = "upper (unicode_upper w) k"
  let ?v = "case environ w ?name of
              None \<Rightarrow> file_value
            | Some env_value \<Rightarrow> if env_value \<noteq> [] then env_value else file_value"
  let ?ks = "override_loop w (map fst d) d"
  let ?p' = "p\<lparr>cls_instance := Some (ready (allocated p) (cfg_path w) ?ks),
               allocated := Suc (allocated p)\<rparr>"
  have c: "construct p w = (Inr (allocated p), ?p', w)"
    by (rule construct_fresh_json [OF assms(1-4)])
  have "k \<in> set (map fst d)"
    using assms(5) by (metis map_of_eq_None_iff option.distinct(1) set_map)
  then have m: "map_of ?ks k = Some ?v"
    using assms(5) by (simp add: map_of_override_loop split: option.splits)
  have i: "cls_instance ?p' = Some (ready (allocated p) (cfg_path w) ?ks)"
    by simp
  have g: "\<not> (\<exists>rest. ?v = ''Your'' @ rest) \<longrightarrow> fst (instance_get_key ?p' k w) = Inr ?v"
    using m by (simp add: instance_get_key_ready [OF i] get_key_ready startswith_Your)
  show "\<exists>i ks v name.
           name = upper (unicode_upper w) k
           \<and> v = (case environ w name of
                  None \<Rightarrow> file_value
                | Some env_value \<Rightarrow> if env_value \<noteq> [] then env_value else file_value)
           \<and> fst (construct p w) = Inr i
           \<and> cls_instance (fst (snd (construct p w))) = Some (ready i (cfg_path w) ks)
           \<and> map_of ks k = Some v
           \<and> (\<not> (\<exists>rest. v = ''Your'' @ rest) \<longrightarrow>
                fst (instance_get_key (fst (snd (construct p w))) k (snd (snd (construct p w))))
                  = Inr v)"
    unfolding c
    by (intro exI [of _ "allocated p"] exI [of _ ?ks] exI [of _ ?v] exI [of _ ?name])
      (use m g in simp)
next
  show "upper u [] = []"
    by (rule upper_Nil)
next
  show "\<forall>a c b. (of_char c :: nat) < 128 \<longrightarrow>
               upper u (a @ c # b) =
                 upper u a @
                 (if 97 \<le> (of_char c :: nat) \<and> (of_char c :: nat) \<le> 122
                  then char_of ((of_char c :: nat) - 32) else c) # upper u b"
  proof (intro allI impI)
    fix a c b
    assume "(of_char c :: nat) < 128"
    then have "is_ascii c"
      by (simp add: is_ascii_def)
    then show "upper u (a @ c # b) =
                 upper u a @
                 (if 97 \<le> (of_char c :: nat) \<and> (of_char c :: nat) \<le> 122
                  then char_of ((of_char c :: nat) - 32) else c) # upper u b"
      by (simp add: upper_ascii upper_char_def Let_def)
  qed
next
  show "\<forall>r. r \<noteq> [] \<and> (\<forall>c\<in>set r. 128 \<le> (of_char c :: nat)) \<longrightarrow> upper u r = u r"
  proof (intro allI impI)
    fix r :: string
    assume h: "r \<noteq> [] \<and> (\<forall>c\<in>set r. 128 \<le> (of_char c :: nat))"
    then have "\<forall>c\<in>set r. \<not> is_ascii c"
      by (auto simp: is_ascii_def)
    with h show "upper u r = u r"
      by (simp add: upper_outside)
  qed
qed

theorem env_override_witness:
  "(fst (instance_get_key
          (fst (snd (construct fresh_proc
             (plain_world ''/p''
                [''/p/credentials/credentials.json'' \<mapsto> JsonObject [(''foo'', ''file-value'')]]
                [''FOO'' \<mapsto> ''env-value'']))))
          ''foo''
          (snd (snd (construct fresh_proc
             (plain_world ''/p''
                [''/p/credentials/credentials.json'' \<mapsto> JsonObject [(''foo'', ''file-value'')]]
                [''FOO'' \<mapsto> ''env-value''])))))
     = Inr ''env-value'')
   \<and> (fst (instance_get_key
          (fst (snd (construct fresh_proc
             ((plain_world ''/p''
                [''/p/credentials/credentials.json'' \<mapsto>
                   JsonObject [([CHR 0xC3, CHR 0xA9], ''file2''), ([CHR 0xC3, CHR 0x9F], ''file3'')]]
                [[CHR 0xC3, CHR 0x89] \<mapsto> ''env2'', ''SS'' \<mapsto> ''env3''])
              \<lparr>unicode_upper := (\<lambda>run. if run = [CHR 0xC3, CHR 0xA9] then [CHR 0xC3, CHR 0x89]
                                     else if run = [CHR 0xC3, CHR 0x9F] then ''SS'' else run)\<rparr>))))
          [CHR 0xC3, CHR 0x9F]
          (snd (snd (construct fresh_proc
             ((plain_world ''/p''
                [''/p/credentials/credentials.json'' \<mapsto>
                   JsonObject [([CHR 0xC3, CHR 0xA9], ''file2''), ([CHR 0xC3, CHR 0x9F], ''file3'')]]
                [[CHR 0xC3, CHR 0x89] \<mapsto> ''env2'', ''SS'' \<mapsto> ''env3''])
              \<lparr>unicode_upper := (\<lambda>run. if run = [CHR 0xC3, CHR 0xA9] then [CHR 0xC3, CHR 0x89]
                                     else if run = [CHR 0xC3, CHR 0x9F] then ''SS'' else run)\<rparr>)))))
     = Inr ''env3'')"
proof (intro conjI)
  show "fst (instance_get_key
          (fst (snd (construct fresh_proc
             (plain_world ''/p''
                [''/p/credentials/credentials.json'' \<mapsto> JsonObject [(''foo'', ''file-value'')]]
                [''FOO'' \<mapsto> ''env-value'']))))
          ''foo''
          (snd (snd (construct fresh_proc
             (plain_world ''/p''
                [''/p/credentials/credentials.json'' \<mapsto> JsonObject [(''foo'', ''file-value'')]]
                [''FOO'' \<mapsto> ''env-value''])))))
     = Inr ''env-value''"
  proof -
    let ?w = "plain_world ''/p''
                [''/p/credentials/credentials.json'' \<mapsto> JsonObject [(''foo'', ''file-value'')]]
                [''FOO'' \<mapsto> ''env-value'']"
    have h1: "cls_instance fresh_proc = None"
      by (simp add: fresh_proc_def)
    have h2: "\<not> makedirs_denied ?w" and h3: "\<not> read_denied ?w"
      by (simp_all add: plain_world_def)
    have h4: "files ?w (cfg_path ?w) = Some (JsonObject [(''foo'', ''file-value'')])"
      by (simp add: cfg_path_plain_world) (simp add: plain_world_def)
    have h5: "map_of [(''foo'', ''file-value'')] ''foo'' = Some ''file-value''"
      by simp
    have e: "environ ?w (upper (unicode_upper ?w) ''foo'') = Some ''env-value''"
      by (simp add: upper_foo plain_world_def)
    show ?thesis
      using env_override [OF h1 h2 h3 h4 h5, THEN conjunct1] by (elim exE conjE) (simp add: e)
  qed
next
  show "fst (instance_get_key
          (fst (snd (construct fresh_proc
             ((plain_world ''/p''
                [''/p/credentials/credentials.json'' \<mapsto>
                   JsonObject [([CHR 0xC3, CHR 0xA9], ''file2''), ([CHR 0xC3, CHR 0x9F], ''file3'')]]
                [[CHR 0xC3, CHR 0x89] \<mapsto> ''env2'', ''SS'' \<mapsto> ''env3''])
              \<lparr>unicode_upper := (\<lambda>run. if run = [CHR 0xC3, CHR 0xA9] then [CHR 0xC3, CHR 0x89]
                                     else if run = [CHR 0xC3, CHR 0x9F] then ''SS'' else run)\<rparr>))))
          [CHR 0xC3, CHR 0x9F]
          (snd (snd (construct fresh_proc
             ((plain_world ''/p''
                [''/p/credentials/credentials.json'' \<mapsto>
                   JsonObject [([CHR 0xC3, CHR 0xA9], ''file2''), ([CHR 0xC3, CHR 0x9F], ''file3'')]]
                [[CHR 0xC3, CHR 0x89] \<mapsto> ''env2'', ''SS'' \<mapsto> ''env3''])
              \<lparr>unicode_upper := (\<lambda>run. if run = [CHR 0xC3, CHR 0xA9] then [CHR 0xC3, CHR 0x89]
                                     else if run = [CHR 0xC3, CHR 0x9F] then ''SS'' else run)\<rparr>)))))
     = Inr ''env3''"
  proof -
    let ?d = "[([CHR 0xC3, CHR 0xA9], ''file2''), ([CHR 0xC3, CHR 0x9F], ''file3'')]"
    let ?u = "\<lambda>run. if run = [CHR 0xC3, CHR 0xA9] then [CHR 0xC3, CHR 0x89]
                    else if run = [CHR 0xC3, CHR 0x9F] then ''SS'' else run"
    let ?w = "(plain_world ''/p'' [''/p/credentials/credentials.json'' \<mapsto> JsonObject ?d]
                 [[CHR 0xC3, CHR 0x89] \<mapsto> ''env2'', ''SS'' \<mapsto> ''env3''])
              \<lparr>unicode_upper := ?u\<rparr>"
    have h1: "cls_instance fresh_proc = None"
      by (simp add: fresh_proc_def)
    have h2: "\<not> makedirs_denied ?w" and h3: "\<not> read_denied ?w"
      by (simp_all add: plain_world_def)
    have cp: "cfg_path ?w = ''/p/credentials/credentials.json''"
      using cfg_path_plain_world by (simp add: cfg_path_def plain_world_def)
    have h4: "files ?w (cfg_path ?w) = Some (JsonObject ?d)"
      unfolding cp by (simp add: plain_world_def)
    have h5: "map_of ?d [CHR 0xC3, CHR 0x9F] = Some ''file3''"
      by simp
    have n: "\<not> is_ascii (CHR 0xC3)" "\<not> is_ascii (CHR 0x9F)"
      by code_simp+
    have up: "upper ?u [CHR 0xC3, CHR 0x9F] = ''SS''"
      by (simp add: upper_def flush_def n)
    have e: "environ (plain_world ''/p'' [''/p/credentials/credentials.json'' \<mapsto> JsonObject ?d]
                 [[CHR 0xC3, CHR 0x89] \<mapsto> ''env2'', ''SS'' \<mapsto> ''env3'']) ''SS'' = Some ''env3''"
      by (simp add: plain_world_def)
    show ?thesis
      using env_override [OF h1 h2 h3 h4 h5, THEN conjunct1] by (elim exE conjE) (simp add: up e)
  qed
qed

lemma sublist_read_error_message:
  "sublist path (read_error_message path e) \<and> sublist (str_exc e) (read_error_message path e)"
proof
  have "read_error_message path e =
          ''Error reading configuration file '' @ path @ ('': '' @ str_exc e)"
    by (simp add: read_error_message_def)
  then show "sublist path (read_error_message path e)"
    unfolding sublist_def by blast
  have "read_error_message path e =
          (''Error reading configuration file '' @ path @ '': '') @ str_exc e @ []"
    by (simp add: read_error_message_def)
  then show "sublist (str_exc e) (read_error_message path e)"
    unfolding sublist_def by blast
qed

lemma construct_fresh_unreadable:
  assumes "cls_instance p = None" "\<not> makedirs_denied w"
    "files w (cfg_path w) = Some c" "read_denied w \<or> (\<exists>m. c = NotJson m)"
  shows "construct p w =
     (Inl (RuntimeError (read_error_message (cfg_path w)
             (if read_denied w then PermissionError (cfg_path w)
              else JSONDecodeError (case c of NotJson m \<Rightarrow> m | JsonObject d \<Rightarrow> [])))),
      p\<lparr>cls_instance := Some (ready (allocated p) (cfg_path w) []),
         allocated := Suc (allocated p)\<rparr>,
      w)"
  using assms
  by (auto simp: construct_def new_def init_def load_config_file_def
      cfg_path_def ready_def Let_def split: file_content.splits)

text \<open>
  What the first construction does with a configuration file that exists and either cannot be
  opened for reading or is not JSON: the constructor call raises the \<open>RuntimeError\<close> whose
  message contains the path of the file and the text of the underlying exception, and the
  world is left as it was.
\<close>

lemma first_construction_unreadable:
  assumes "cls_instance p = None" "\<not> makedirs_denied w"
    "files w (cfg_path w) = Some c" "read_denied w \<or> (\<exists>m. c = NotJson m)"
  shows "\<exists>cause.
           fst (construct p w) = Inl (RuntimeError (read_error_message (cfg_path w) cause))
           \<and> (if read_denied w then cause = PermissionError (cfg_path w)
                else \<exists>m. c = NotJson m \<and> cause = JSONDecodeError m)
           \<and> sublist (cfg_path w) (read_error_message (cfg_path w) cause)
           \<and> sublist (str_exc cause) (read_error_message (cfg_path w) cause)
           \<and> snd (snd (construct p w)) = w"
proof -
  let ?cause = "if read_denied w then PermissionError (cfg_path w)
              else JSONDecodeError (case c of NotJson m \<Rightarrow> m | JsonObject d \<Rightarrow> [])"
  have "if read_denied w then cause = PermissionError (cfg_path w)
        else \<exists>m. c = NotJson m \<and> cause = JSONDecodeError m"
    if "cause = ?cause" for cause
    using that assms(4) by auto
  then show ?thesis
    unfolding construct_fresh_unreadable [OF assms]
    by (intro exI [of _ ?cause]) (simp add: sublist_read_error_message)
qed

lemma construct_again:
  assumes "cls_instance p = Some self" "initialized self"
  shows "construct p w = (Inr (oid self), p, w)"
  using assms by (simp add: construct_def new_def init_def)

text \<open>
  C3. A fresh process whose configuration file exists and is not JSON. The first constructor
  call raises the \<open>RuntimeError\<close> (the spec's \<open>ConfigReadError\<close>) with the path and the
  cause in its message. \<open>__init__\<close> had already set \<open>_initialized\<close> and bound \<open>_keys\<close> to the
  empty dictionary, and \<open>__new__\<close> had stored the instance in the class, so the next constructor
  call, with the file as unreadable as before, raises nothing and returns that instance:
  construction goes on with an empty key store, in which \<open>get_key\<close> finds no key.
\<close>

theorem failed_load_leaves_empty_store:
  "fst (construct fresh_proc
          (plain_world ''/p''
             [''/p/credentials/credentials.json'' \<mapsto> NotJson ''Expecting value'']
             Map.empty))
     = Inl (RuntimeError
         ''Error reading configuration file /p/credentials/credentials.json: Expecting value'')
   \<and> construct
        (fst (snd (construct fresh_proc
           (plain_world ''/p''
              [''/p/credentials/credentials.json'' \<mapsto> NotJson ''Expecting value'']
              Map.empty))))
        (plain_world ''/p''
           [''/p/credentials/credentials.json'' \<mapsto> NotJson ''Expecting value'']
           Map.empty)
     = (Inr 0,
        fresh_proc\<lparr>cls_instance := Some (ready 0 ''/p/credentials/credentials.json'' []),
                    allocated := Suc 0\<rparr>,
        plain_world ''/p''
           [''/p/credentials/credentials.json'' \<mapsto> NotJson ''Expecting value'']
           Map.empty)
   \<and> fst (instance_get_key
        (fresh_proc\<lparr>cls_instance := Some (ready 0 ''/p/credentials/credentials.json'' []),
                    allocated := Suc 0\<rparr>)
        ''A''
        (plain_world ''/p''
           [''/p/credentials/credentials.json'' \<mapsto> NotJson ''Expecting value'']
           Map.empty))
     = Inl (ValueError (key_error_message ''A'' ''/p/credentials/credentials.json''))"
proof -
  let ?path = "''/p/credentials/credentials.json''"
  let ?w = "plain_world ''/p'' [?path \<mapsto> NotJson ''Expecting value''] Map.empty"
  let ?p' = "fresh_proc\<lparr>cls_instance := Some (ready 0 ?path []), allocated := Suc 0\<rparr>"
  have h1: "cls_instance fresh_proc = None" and a: "allocated fresh_proc = 0"
    by (simp_all add: fresh_proc_def)
  have h2: "\<not> makedirs_denied ?w" and r: "\<not> read_denied ?w"
    by (simp_all add: plain_world_def)
  have h3: "files ?w (cfg_path ?w) = Some (NotJson ''Expecting value'')"
    by (simp add: cfg_path_plain_world) (simp add: plain_world_def)
  have h4: "read_denied ?w \<or> (\<exists>m. NotJson ''Expecting value'' = NotJson m)"
    by simp
  have c: "construct fresh_proc ?w =
             (Inl (RuntimeError
                ''Error reading configuration file /p/credentials/credentials.json: Expecting value''),
              ?p', ?w)"
    using construct_fresh_unreadable [OF h1 h2 h3 h4] r
    by (simp add: cfg_path_plain_world a read_error_message_def)
  have i: "cls_instance ?p' = Some (ready 0 ?path [])"
    by simp
  have again: "construct ?p' ?w = (Inr 0, ?p', ?w)"
    using construct_again [OF i, of ?w] by (simp add: ready_def)
  have g: "fst (instance_get_key ?p' ''A'' ?w) = Inl (ValueError (key_error_message ''A'' ?path))"
    by (simp add: instance_get_key_ready [OF i] get_key_ready)
  show ?thesis
    unfolding c using again g by simp
qed

lemma construct_fresh_no_file:
  assumes "cls_instance p = None" "\<not> makedirs_denied w" "\<not> write_denied w"
    "files w (cfg_path w) = None"
  shows "construct p w =
     (Inl (NameError ''DEFAULT_CONFIG''),
      p\<lparr>cls_instance := Some (ready (allocated p) (cfg_path w) []),
         allocated := Suc (allocated p)\<rparr>,
      w\<lparr>files := (files w)(cfg_path w \<mapsto> empty_file)\<rparr>)"
  using assms
  by (simp add: construct_def new_def init_def load_config_file_def load_global_def
      module_globals_def cfg_path_def ready_def Let_def)

text \<open>
  C2. The first construction in a process, with no configuration file: \<open>open\<close> creates the
  file empty, then the bare name \<open>DEFAULT_CONFIG\<close> is not bound and the constructor raises
  \<open>NameError\<close>. Nothing is written to the file, which is now not JSON, nothing is printed,
  the key store stays the empty dictionary, and \<open>get_key\<close> of \<open>EXAMPLE_API_NAME\<close> on the
  instance the class keeps raises \<open>ValueError\<close>.
\<close>

theorem default_config_name_error:
  "fst (construct fresh_proc (plain_world ''/p'' Map.empty Map.empty))
     = Inl (NameError ''DEFAULT_CONFIG'')
   \<and> files (snd (snd (construct fresh_proc (plain_world ''/p'' Map.empty Map.empty))))
        ''/p/credentials/credentials.json'' = Some empty_file
   \<and> disk_mapping (snd (snd (construct fresh_proc (plain_world ''/p'' Map.empty Map.empty))))
        ''/p/credentials/credentials.json'' \<noteq> Some DEFAULT_CONFIG
   \<and> stdout (snd (snd (construct fresh_proc (plain_world ''/p'' Map.empty Map.empty)))) = []
   \<and> cls_instance (fst (snd (construct fresh_proc (plain_world ''/p'' Map.empty Map.empty))))
        = Some (ready 0 ''/p/credentials/credentials.json'' [])
   \<and> fst (instance_get_key
            (fst (snd (construct fresh_proc (plain_world ''/p'' Map.empty Map.empty))))
            ''EXAMPLE_API_NAME''
            (snd (snd (construct fresh_proc (plain_world ''/p'' Map.empty Map.empty)))))
        = Inl (ValueError
            (key_error_message ''EXAMPLE_API_NAME'' ''/p/credentials/credentials.json''))"
proof -
  let ?w = "plain_world ''/p'' Map.empty Map.empty"
  let ?path = "''/p/credentials/credentials.json''"
  let ?p' = "fresh_proc\<lparr>cls_instance := Some (ready 0 ?path []), allocated := Suc 0\<rparr>"
  have h1: "cls_instance fresh_proc = None" and a: "allocated fresh_proc = 0"
    by (simp_all add: fresh_proc_def)
  have h2: "\<not> makedirs_denied ?w" and h3: "\<not> write_denied ?w" and o: "stdout ?w = []"
    by (simp_all add: plain_world_def)
  have h4: "files ?w (cfg_path ?w) = None"
    by (simp add: plain_world_def)
  have c: "construct fresh_proc ?w =
             (Inl (NameError ''DEFAULT_CONFIG''), ?p', ?w\<lparr>files := (files ?w)(?path \<mapsto> empty_file)\<rparr>)"
    using construct_fresh_no_file [OF h1 h2 h3 h4] by (simp add: cfg_path_plain_world a)
  have i: "cls_instance ?p' = Some (ready 0 ?path [])"
    by simp
  show ?thesis
    unfolding c
    by (simp add: o disk_mapping_def empty_file_def instance_get_key_ready [OF i] get_key_ready)
qed

section \<open>The singleton\<close>

lemma ready_sel:
  "keys (ready i path ks) = Some ks" "config_path (ready i path ks) = Some path"
  "oid (ready i path ks) = i" "initialized (ready i path ks)"
  by (simp_all add: ready_def)

lemma load_config_file_keeps:
  "initialized (fst (snd (load_config_file self w))) = initialized self
   \<and> oid (fst (snd (load_config_file self w))) = oid self"
  by (simp add: load_config_file_def Let_def split: option.splits sum.splits file_content.splits)

lemma override_with_env_keeps:
  "initialized (fst (snd (override_with_env self w))) = initialized self
   \<and> oid (fst (snd (override_with_env self w))) = oid self"
  by (simp add: override_with_env_def split: option.splits)

lemma init_keeps:
  "initialized (fst (snd (init self w))) \<and> oid (fst (snd (init self w))) = oid self"
proof (cases "initialized self \<or> makedirs_denied w")
  case True
  then show ?thesis by (auto simp: init_def Let_def)
next
  case False
  let ?self2 = "self\<lparr>initialized := True,
                  config_path := Some (path_join (path_join (project_root w) CONFIG_DIR) CONFIG_FILENAME),
                  keys := Some []\<rparr>"
  obtain r self3 w3 where l: "load_config_file ?self2 w = (r, self3, w3)"
    by (cases "load_config_file ?self2 w") auto
  have k: "initialized self3 \<and> oid self3 = oid self"
    using load_config_file_keeps [of ?self2 w] by (simp add: l)
  show ?thesis
  proof (cases r)
    case (Inl e)
    then show ?thesis using False k by (simp add: init_def Let_def l)
  next
    case (Inr u)
    then show ?thesis
      using False k override_with_env_keeps [of self3 w3] by (simp add: init_def Let_def l)
  qed
qed

lemma construct_leaves_instance:
  "\<exists>self. cls_instance (fst (snd (construct p w))) = Some self \<and> initialized self
     \<and> (\<forall>i. fst (construct p w) = Inr i \<longrightarrow> i = oid self)"
proof -
  obtain self p1 where n: "new p = (self, p1)"
    by (cases "new p") auto
  obtain r self' w' where i: "init self w = (r, self', w')"
    by (cases "init self w") auto
  have "initialized self'"
    using init_keeps [of self w] by (simp add: i)
  then show ?thesis
    by (cases r) (simp_all add: construct_def n i)
qed

lemma construct_fresh_success:
  assumes "cls_instance p = None" "fst (construct p w) = Inr i"
  shows "\<exists>ks. cls_instance (fst (snd (construct p w))) = Some (ready i (cfg_path w) ks)"
proof -
  have m: "\<not> makedirs_denied w"
    using assms by (auto simp: construct_def new_def init_def Let_def)
  show ?thesis
  proof (cases "files w (cfg_path w)")
    case None
    have "\<exists>e. fst (construct p w) = Inl e"
    proof (cases "write_denied w")
      case True
      then show ?thesis
        using assms(1) m None
        by (simp add: construct_def new_def init_def load_config_file_def cfg_path_def Let_def)
    next
      case False
      then show ?thesis
        by (simp add: construct_fresh_no_file [OF assms(1) m False None])
    qed
    then show ?thesis
      using assms(2) by auto
  next
    case (Some c)
    show ?thesis
    proof (cases "read_denied w \<or> (\<exists>m. c = NotJson m)")
      case True
      then show ?thesis
        using assms(2) construct_fresh_unreadable [OF assms(1) m Some True] by simp
    next
      case False
      then obtain d where d: "c = JsonObject d" and r: "\<not> read_denied w"
        by (cases c) auto
      show ?thesis
        using assms(2) construct_fresh_json [OF assms(1) m r Some [unfolded d]] by auto
    qed
  qed
qed


lemma instance_set_key_ready:
  "cls_instance p = Some (ready i path ks) \<Longrightarrow>
   instance_set_key p name val w =
     (Inr (), p\<lparr>cls_instance := Some (ready i path (AList.update name val ks))\<rparr>,
      snd (snd (set_key (ready i path ks) name val w)))"
  by (simp add: instance_set_key_def set_key_ready)

text \<open>
  C7. Whatever the first call of the constructor did, the class then holds an instance, and
  every later call of the constructor returns that same instance and changes neither the
  instance nor the class nor the world, whatever the world has become: nothing is initialised
  again. When the first call was made in a fresh process and returned, a \<open>set_key\<close> through
  that instance does not stop later constructor calls from returning the same instance, and
  \<open>get_key\<close> through it returns the value that was set (or raises for a value that begins
  with \<open>Your\<close>).
\<close>

theorem construct_idempotent:
  assumes "construct p w = (r, p1, w1)"
  shows "\<exists>self. cls_instance p1 = Some self
     \<and> (\<forall>i. r = Inr i \<longrightarrow> i = oid self)
     \<and> (\<forall>w2. construct p1 w2 = (Inr (oid self), p1, w2))
     \<and> (cls_instance p = None \<and> r = Inr (oid self) \<longrightarrow>
         (\<forall>name val w2 w3. \<exists>p2 w2'.
            instance_set_key p1 name val w2 = (Inr (), p2, w2')
            \<and> construct p2 w3 = (Inr (oid self), p2, w3)
            \<and> fst (instance_get_key p2 name w3)
                = (if \<exists>rest. val = ''Your'' @ rest
                   then Inl (ValueError (key_error_message name (cfg_path w)))
                   else Inr val)))"
proof -
  from construct_leaves_instance [of p w] assms
  obtain self where s: "cls_instance p1 = Some self" "initialized self"
    and o: "\<forall>i. r = Inr i \<longrightarrow> i = oid self"
    by auto
  have again: "\<forall>w2. construct p1 w2 = (Inr (oid self), p1, w2)"
    using construct_again [OF s] by simp
  have later: "\<exists>p2 w2'.
            instance_set_key p1 name val w2 = (Inr (), p2, w2')
            \<and> construct p2 w3 = (Inr (oid self), p2, w3)
            \<and> fst (instance_get_key p2 name w3)
                = (if \<exists>rest. val = ''Your'' @ rest
                   then Inl (ValueError (key_error_message name (cfg_path w)))
                   else Inr val)"
    if f: "cls_instance p = None" and ok: "r = Inr (oid self)" for name val w2 w3
  proof -
    from construct_fresh_success [OF f, of w "oid self"] assms ok
    obtain ks where k: "cls_instance p1 = Some (ready (oid self) (cfg_path w) ks)"
      by auto
    let ?self2 = "ready (oid self) (cfg_path w) (AList.update name val ks)"
    let ?p2 = "p1\<lparr>cls_instance := Some ?self2\<rparr>"
    have i2: "cls_instance ?p2 = Some ?self2"
      by simp
    have "construct ?p2 w3 = (Inr (oid self), ?p2, w3)"
      using construct_again [OF i2, of w3] by (simp add: ready_sel)
    moreover have "fst (instance_get_key ?p2 name w3)
                = (if \<exists>rest. val = ''Your'' @ rest
                   then Inl (ValueError (key_error_message name (cfg_path w)))
                   else Inr val)"
      by (simp add: instance_get_key_ready [OF i2] get_key_ready update_conv startswith_Your)
    ultimately show ?thesis
      by (simp add: instance_set_key_ready [OF k])
  qed
  show ?thesis
  proof (intro exI [of _ self] conjI)
    show "cls_instance p1 = Some self" by (rule s(1))
    show "\<forall>i. r = Inr i \<longrightarrow> i = oid self" by (rule o)
    show "\<forall>w2. construct p1 w2 = (Inr (oid self), p1, w2)" by (rule again)
    show "cls_instance p = None \<and> r = Inr (oid self) \<longrightarrow>
         (\<forall>name val w2 w3. \<exists>p2 w2'.
            instance_set_key p1 name val w2 = (Inr (), p2, w2')
            \<and> construct p2 w3 = (Inr (oid self), p2, w3)
            \<and> fst (instance_get_key p2 name w3)
                = (if \<exists>rest. val = ''Your'' @ rest
                   then Inl (ValueError (key_error_message name (cfg_path w)))
                   else Inr val))"
      using later by (intro impI allI) (elim conjE)
  qed
qed


theorem construct_idempotent_witness:
  "construct (fst (snd (construct fresh_proc
       (plain_world ''/p'' [''/p/credentials/credentials.json'' \<mapsto> JsonObject [(''A'', ''abc'')]]
          Map.empty))))
     (plain_world ''/q'' Map.empty Map.empty)
   = (Inr 0,
      fst (snd (construct fresh_proc
       (plain_world ''/p'' [''/p/credentials/credentials.json'' \<mapsto> JsonObject [(''A'', ''abc'')]]
          Map.empty))),
      plain_world ''/q'' Map.empty Map.empty)
   \<and> fst (instance_get_key
       (fst (snd (instance_set_key
          (fst (snd (construct fresh_proc
             (plain_world ''/p''
                [''/p/credentials/credentials.json'' \<mapsto> JsonObject [(''A'', ''abc'')]]
                Map.empty))))
          ''FOO'' ''bar123'' (plain_world ''/q'' Map.empty Map.empty))))
       ''FOO'' (plain_world ''/q'' Map.empty Map.empty)) = Inr ''bar123''"
proof -
  let ?w = "plain_world ''/p''
              [''/p/credentials/credentials.json'' \<mapsto> JsonObject [(''A'', ''abc'')]] Map.empty"
  let ?q = "plain_world ''/q'' Map.empty Map.empty"
  obtain r p1 w1 where c: "construct fresh_proc ?w = (r, p1, w1)"
    by (cases "construct fresh_proc ?w") auto
  have h1: "cls_instance fresh_proc = None"
    by (simp add: fresh_proc_def)
  have h2: "\<not> makedirs_denied ?w" and h3: "\<not> read_denied ?w"
    by (simp_all add: plain_world_def)
  have h4: "files ?w (cfg_path ?w) = Some (JsonObject [(''A'', ''abc'')])"
    by (simp add: cfg_path_plain_world) (simp add: plain_world_def)
  have r: "r = Inr 0"
    using construct_fresh_json [OF h1 h2 h3 h4] c by (simp add: fresh_proc_def)
  have "construct p1 ?q = (Inr 0, p1, ?q)
        \<and> fst (instance_get_key (fst (snd (instance_set_key p1 ''FOO'' ''bar123'' ?q))) ''FOO'' ?q)
            = Inr ''bar123''"
    using construct_idempotent [OF c]
  proof (elim exE conjE)
    fix self :: obj
    assume a: "\<forall>i. r = Inr i \<longrightarrow> i = oid self"
      and b: "\<forall>w2. construct p1 w2 = (Inr (oid self), p1, w2)"
      and d: "cls_instance fresh_proc = None \<and> r = Inr (oid self) \<longrightarrow>
         (\<forall>name val w2 w3. \<exists>p2 w2'.
            instance_set_key p1 name val w2 = (Inr (), p2, w2')
            \<and> construct p2 w3 = (Inr (oid self), p2, w3)
            \<and> fst (instance_get_key p2 name w3)
                = (if \<exists>rest. val = ''Your'' @ rest
                   then Inl (ValueError (key_error_message name (cfg_path ?w)))
                   else Inr val))"
    have z: "oid self = 0"
      using a [rule_format, OF r] by simp
    have first: "construct p1 ?q = (Inr 0, p1, ?q)"
      using b [rule_format, of ?q] by (simp add: z)
    have r': "r = Inr (oid self)"
      by (simp add: r z)
    have "\<exists>p2 w2'.
            instance_set_key p1 ''FOO'' ''bar123'' ?q = (Inr (), p2, w2')
            \<and> construct p2 ?q = (Inr (oid self), p2, ?q)
            \<and> fst (instance_get_key p2 ''FOO'' ?q)
                = (if \<exists>rest. ''bar123'' = ''Your'' @ rest
                   then Inl (ValueError (key_error_message ''FOO'' (cfg_path ?w)))
                   else Inr ''bar123'')"
      by (rule d [THEN mp, OF conjI [OF h1 r'], rule_format])
    then have "fst (instance_get_key (fst (snd (instance_set_key p1 ''FOO'' ''bar123'' ?q))) ''FOO'' ?q)
            = Inr ''bar123''"
      by (elim exE conjE) simp
    with first show ?thesis
      by simp
  qed
  then show ?thesis
    by (simp add: c)
qed

section \<open>Writing a key\<close>

text \<open>
  C5. When the operating system lets the configuration file be opened for writing,
  \<open>set_key name val\<close> rebinds \<open>name\<close> to \<open>val\<close> in the key store, does not raise, and
  leaves on disk the JSON of the whole updated key store: parsing the file afterwards gives a
  dictionary that binds \<open>name\<close> to \<open>val\<close>.
\<close>

theorem set_key_persists:
  assumes "\<not> write_denied w"
  shows "\<exists>d. set_key (ready i path ks) name val w
              = (Inr (), ready i path d, w\<lparr>files := (files w)(path \<mapsto> JsonObject d)\<rparr>)
           \<and> d = AList.update name val ks
           \<and> map_of d name = Some val
           \<and> disk_mapping (snd (snd (set_key (ready i path ks) name val w))) path = Some d"
  using assms
  by (intro exI [of _ "AList.update name val ks"])
    (simp add: set_key_ready disk_mapping_def update_conv)

theorem set_key_persists_witness:
  "disk_mapping
     (snd (snd (set_key (ready 0 ''/c.json'' [(''A'', ''abc'')]) ''FOO'' ''bar123''
        (plain_world ''/p'' [''/c.json'' \<mapsto> JsonObject [(''A'', ''abc'')]] Map.empty))))
     ''/c.json''
   = Some [(''A'', ''abc''), (''FOO'', ''bar123'')]"
proof -
  let ?w = "plain_world ''/p'' [''/c.json'' \<mapsto> JsonObject [(''A'', ''abc'')]] Map.empty"
  have h: "\<not> write_denied ?w"
    by (simp add: plain_world_def)
  show ?thesis
    using set_key_persists [OF h, of 0 "''/c.json''" "[(''A'', ''abc'')]" "''FOO''" "''bar123''"]
    by (elim exE conjE) simp
qed

text \<open>
  C6. When the operating system refuses to open the configuration file for writing,
  \<open>set_key name val\<close> still returns normally, prints one line that reports the failure,
  leaves the files as they were, and the key store binds \<open>name\<close> to \<open>val\<close>: a following
  \<open>get_key name\<close> returns \<open>val\<close> (or raises for a value that begins with \<open>Your\<close>).
\<close>

theorem set_key_write_failure:
  assumes "write_denied w"
  shows "\<exists>d. set_key (ready i path ks) name val w
              = (Inr (), ready i path d,
                 w\<lparr>stdout := stdout w @ [save_error_line (PermissionError path)]\<rparr>)
           \<and> map_of d name = Some val
           \<and> files (snd (snd (set_key (ready i path ks) name val w))) = files w
           \<and> fst (get_key (fst (snd (set_key (ready i path ks) name val w))) name
                  (snd (snd (set_key (ready i path ks) name val w))))
               = (if \<exists>rest. val = ''Your'' @ rest
                  then Inl (ValueError (key_error_message name path)) else Inr val)"
  using assms
  by (intro exI [of _ "AList.update name val ks"])
    (simp add: set_key_ready update_conv get_key_ready startswith_Your)

theorem set_key_write_failure_witness:
  "fst (set_key (ready 0 ''/c.json'' [(''A'', ''abc'')]) ''FOO'' ''bar123''
          ((plain_world ''/p'' Map.empty Map.empty)\<lparr>write_denied := True\<rparr>)) = Inr ()
   \<and> fst (get_key
       (fst (snd (set_key (ready 0 ''/c.json'' [(''A'', ''abc'')]) ''FOO'' ''bar123''
          ((plain_world ''/p'' Map.empty Map.empty)\<lparr>write_denied := True\<rparr>))))
       ''FOO''
       (snd (snd (set_key (ready 0 ''/c.json'' [(''A'', ''abc'')]) ''FOO'' ''bar123''
          ((plain_world ''/p'' Map.empty Map.empty)\<lparr>write_denied := True\<rparr>)))))
     = Inr ''bar123''
   \<and> stdout
       (snd (snd (set_key (ready 0 ''/c.json'' [(''A'', ''abc'')]) ''FOO'' ''bar123''
          ((plain_world ''/p'' Map.empty Map.empty)\<lparr>write_denied := True\<rparr>))))
     = [save_error_line (PermissionError ''/c.json'')]"
proof -
  let ?w = "(plain_world ''/p'' Map.empty Map.empty)\<lparr>write_denied := True\<rparr>"
  have h: "write_denied ?w"
    by simp
  have o: "stdout ?w = []"
    by (simp add: plain_world_def)
  show ?thesis
    using set_key_write_failure [OF h, of 0 "''/c.json''" "[(''A'', ''abc'')]" "''FOO''" "''bar123''"]
    by (elim exE conjE) (simp add: o)
qed

text \<open>
  C8. \<open>set_key name val\<close> leaves every other key's binding in the key store as it was, and
  when the write takes place the dictionary on disk is the updated key store: it holds those
  unchanged bindings and the new one.
\<close>

theorem set_key_frame:
  assumes "k \<noteq> name"
  shows "\<exists>d. keys (fst (snd (set_key (ready i path ks) name val w))) = Some d
           \<and> map_of d k = map_of ks k
           \<and> (\<not> write_denied w \<longrightarrow>
                disk_mapping (snd (snd (set_key (ready i path ks) name val w))) path = Some d
                \<and> map_of d name = Some val)"
  using assms
  by (intro exI [of _ "AList.update name val ks"])
    (simp add: set_key_ready disk_mapping_def update_conv ready_sel)

theorem set_key_frame_witness:
  "\<exists>d. disk_mapping
          (snd (snd (set_key (ready 0 ''/c.json'' [(''A'', ''abc''), (''B'', ''old'')]) ''B'' ''new''
             (plain_world ''/p'' Map.empty Map.empty))))
          ''/c.json'' = Some d
       \<and> map_of d ''A'' = Some ''abc'' \<and> map_of d ''B'' = Some ''new''"
proof -
  let ?w = "plain_world ''/p'' Map.empty Map.empty"
  have h: "''A'' \<noteq> ''B''"
    by simp
  have n: "\<not> write_denied ?w"
    by (simp add: plain_world_def)
  show ?thesis
    using set_key_frame [OF h, of 0 "''/c.json''" "[(''A'', ''abc''), (''B'', ''old'')]" "''new''" ?w] n
    by (elim exE conjE) auto
qed

end
